theory Spec2Isabelle
  imports Complex_Main
begin

section \<open>Credit dashboard: data model\<close>

text \<open>
  A JavaScript number is an IEEE double: a finite value, one of the two infinities, or
  NaN. Finite doubles are real numbers and the comparison operators agree with the order
  of the reals on them, so a finite number is modelled by the real it denotes.
\<close>

datatype jsnum = Finite real | PosInfinity | NegInfinity | NaN

text \<open>The relational operators \<^verbatim>\<open>>=\<close> and \<^verbatim>\<open><\<close>: every comparison with NaN is false.\<close>

fun js_ge :: "jsnum \<Rightarrow> jsnum \<Rightarrow> bool" where
  "js_ge NaN y = False"
| "js_ge x NaN = False"
| "js_ge (Finite a) (Finite b) = (b \<le> a)"
| "js_ge PosInfinity y = True"
| "js_ge x NegInfinity = True"
| "js_ge (Finite a) PosInfinity = False"
| "js_ge NegInfinity y = False"

fun js_lt :: "jsnum \<Rightarrow> jsnum \<Rightarrow> bool" where
  "js_lt NaN y = False"
| "js_lt x NaN = False"
| "js_lt (Finite a) (Finite b) = (a < b)"
| "js_lt PosInfinity y = False"
| "js_lt x NegInfinity = False"
| "js_lt (Finite a) PosInfinity = True"
| "js_lt NegInfinity y = True"

text \<open>
  A company record, with the fields the components read: \<^verbatim>\<open>ticker\<close> and \<^verbatim>\<open>name\<close>
  (CompanySelector, CreditScoreDisplay), the four monetary magnitudes and the four ratios
  (FinancialCharts), and the revenue history plotted by the trend chart.
\<close>

record history_point =
  year :: int
  revenue :: real

record company =
  ticker :: string
  name :: string
  revenue :: real
  netIncome :: real
  totalAssets :: real
  totalDebt :: real
  currentRatio :: real
  debtRatio :: real
  roe :: real
  roa :: real
  historicalData :: "history_point list"

section \<open>CreditScoreDisplay: grade and risk classification\<close>

text \<open>
  \<^verbatim>\<open>getScoreGrade\<close>: a chain of early returns, tested from the highest threshold down.
\<close>

definition getScoreGrade :: "jsnum \<Rightarrow> string" where
  "getScoreGrade score =
     (if js_ge score (Finite 90) then ''AAA''
      else if js_ge score (Finite 80) then ''AA''
      else if js_ge score (Finite 70) then ''A''
      else if js_ge score (Finite 60) then ''BBB''
      else if js_ge score (Finite 50) then ''BB''
      else if js_ge score (Finite 40) then ''B''
      else ''CCC'')"

text \<open>
  \<^verbatim>\<open>getRiskLevel\<close> returns an object with the label and the icon component drawn
  beside it.
\<close>

datatype icon = TrendingUp | Minus | TrendingDown

record risk =
  level :: string
  icon :: icon

definition getRiskLevel :: "jsnum \<Rightarrow> risk" where
  "getRiskLevel score =
     (if js_ge score (Finite 80) then \<lparr>level = ''Low Risk'', icon = TrendingUp\<rparr>
      else if js_ge score (Finite 60) then \<lparr>level = ''Medium Risk'', icon = Minus\<rparr>
      else \<lparr>level = ''High Risk'', icon = TrendingDown\<rparr>)"

section \<open>App: the selection coordinator\<close>

text \<open>
  The two \<^verbatim>\<open>useState\<close> cells of \<^verbatim>\<open>App\<close>, both initially \<^verbatim>\<open>null\<close>. The score is
  whatever the calculator returns, so its type is left open.
\<close>

record 's app_state =
  selectedCompany :: "company option"
  creditScore :: "'s option"

definition initial_state :: "'s app_state" where
  "initial_state = \<lparr>selectedCompany = None, creditScore = None\<rparr>"

text \<open>
  \<^verbatim>\<open>handleCompanySelect\<close>. The modules \<^verbatim>\<open>data/mockData\<close> (the array \<^verbatim>\<open>companies\<close>) and
  \<^verbatim>\<open>utils/creditScoreCalculator\<close> (the function \<^verbatim>\<open>calculateCreditScore\<close>) are imported
  by \<^verbatim>\<open>App.js\<close>; here they are the parameters \<open>companies\<close> and \<open>calc\<close>.
  \<^verbatim>\<open>Array.prototype.find\<close> returns the first element satisfying the predicate, or
  \<^verbatim>\<open>undefined\<close>, which is falsy; a record object is truthy. Both setters are called in
  the same event handler, so the next render sees both new values.
\<close>

definition handleCompanySelect ::
  "company list \<Rightarrow> (company \<Rightarrow> 's) \<Rightarrow> string \<Rightarrow> 's app_state \<Rightarrow> 's app_state" where
  "handleCompanySelect companies calc t st =
     (case find (\<lambda>c. ticker c = t) companies of
        None \<Rightarrow> st
      | Some c \<Rightarrow> st\<lparr>selectedCompany := Some c, creditScore := Some (calc c)\<rparr>)"

text \<open>The coordinator after a sequence of selection events, oldest first.\<close>

fun run :: "company list \<Rightarrow> (company \<Rightarrow> 's) \<Rightarrow> string list \<Rightarrow> 's app_state \<Rightarrow> 's app_state" where
  "run companies calc [] st = st"
| "run companies calc (t # ts) st = run companies calc ts (handleCompanySelect companies calc t st)"

section \<open>Sample input\<close>

text \<open>
  Concrete records at which the theorems below are instantiated. The array of
  \<^verbatim>\<open>data/mockData\<close> is not among the sources; these are sample values only.
\<close>

definition sample_company :: "string \<Rightarrow> real \<Rightarrow> real \<Rightarrow> real \<Rightarrow> real \<Rightarrow> company" where
  "sample_company t cr dr re ra =
     \<lparr>ticker = t, name = t, revenue = 100000000, netIncome = 20000000,
      totalAssets = 300000000, totalDebt = 100000000,
      currentRatio = cr, debtRatio = dr, roe = re, roa = ra,
      historicalData = [\<lparr>year = 2022, revenue = 90000000\<rparr>, \<lparr>year = 2023, revenue = 100000000\<rparr>]\<rparr>"

definition sample_companies :: "company list" where
  "sample_companies =
     [sample_company ''AAPL'' 1.5 0.3 0.25 0.12, sample_company ''MSFT'' 2 0.25 0.3 0.15]"

section \<open>Grade and risk bands\<close>

text \<open>
  C1. The grade follows the threshold table: "AAA" from 90, "AA" from 80 below 90, "A" from
  70 below 80, "BBB" from 60 below 70, "BB" from 50 below 60, "B" from 40 below 50, and
  "CCC" for every score in none of these bands (NaN included); 90 gives "AAA" and 89
  gives "AA".
\<close>

theorem getScoreGrade_table:
  "(js_ge s (Finite 90) \<longrightarrow> getScoreGrade s = ''AAA'') \<and>
   (js_ge s (Finite 80) \<and> js_lt s (Finite 90) \<longrightarrow> getScoreGrade s = ''AA'') \<and>
   (js_ge s (Finite 70) \<and> js_lt s (Finite 80) \<longrightarrow> getScoreGrade s = ''A'') \<and>
   (js_ge s (Finite 60) \<and> js_lt s (Finite 70) \<longrightarrow> getScoreGrade s = ''BBB'') \<and>
   (js_ge s (Finite 50) \<and> js_lt s (Finite 60) \<longrightarrow> getScoreGrade s = ''BB'') \<and>
   (js_ge s (Finite 40) \<and> js_lt s (Finite 50) \<longrightarrow> getScoreGrade s = ''B'') \<and>
   (\<not> js_ge s (Finite 90) \<and>
    \<not> (js_ge s (Finite 80) \<and> js_lt s (Finite 90)) \<and>
    \<not> (js_ge s (Finite 70) \<and> js_lt s (Finite 80)) \<and>
    \<not> (js_ge s (Finite 60) \<and> js_lt s (Finite 70)) \<and>
    \<not> (js_ge s (Finite 50) \<and> js_lt s (Finite 60)) \<and>
    \<not> (js_ge s (Finite 40) \<and> js_lt s (Finite 50)) \<longrightarrow> getScoreGrade s = ''CCC'') \<and>
   getScoreGrade (Finite 90) = ''AAA'' \<and>
   getScoreGrade (Finite 89) = ''AA''"
  by (cases s) (auto simp: getScoreGrade_def)

theorem getScoreGrade_table_witness:
  "js_ge (Finite 90) (Finite 90) \<and> getScoreGrade (Finite 90) = ''AAA'' \<and>
   js_ge (Finite 89) (Finite 80) \<and> js_lt (Finite 89) (Finite 90) \<and>
   getScoreGrade (Finite 89) = ''AA'' \<and>
   js_ge (Finite 75) (Finite 70) \<and> js_lt (Finite 75) (Finite 80) \<and>
   getScoreGrade (Finite 75) = ''A'' \<and>
   js_ge (Finite 60) (Finite 60) \<and> js_lt (Finite 60) (Finite 70) \<and>
   getScoreGrade (Finite 60) = ''BBB'' \<and>
   js_ge (Finite 59.5) (Finite 50) \<and> js_lt (Finite 59.5) (Finite 60) \<and>
   getScoreGrade (Finite 59.5) = ''BB'' \<and>
   js_ge (Finite 40) (Finite 40) \<and> js_lt (Finite 40) (Finite 50) \<and>
   getScoreGrade (Finite 40) = ''B'' \<and>
   \<not> js_ge (Finite 39) (Finite 40) \<and> getScoreGrade (Finite 39) = ''CCC'' \<and>
   \<not> js_ge NaN (Finite 40) \<and> getScoreGrade NaN = ''CCC''"
  using getScoreGrade_table [of "Finite 90"] getScoreGrade_table [of "Finite 89"]
    getScoreGrade_table [of "Finite 75"] getScoreGrade_table [of "Finite 60"]
    getScoreGrade_table [of "Finite 59.5"] getScoreGrade_table [of "Finite 40"]
    getScoreGrade_table [of "Finite 39"] getScoreGrade_table [of NaN]
  by simp

text \<open>
  C5. The risk level follows the bands: "Low Risk" from 80, "Medium Risk" from 60 below
  80, and "High Risk" for every other score.
\<close>

theorem getRiskLevel_bands:
  "(js_ge s (Finite 80) \<longrightarrow> level (getRiskLevel s) = ''Low Risk'') \<and>
   (js_ge s (Finite 60) \<and> js_lt s (Finite 80) \<longrightarrow> level (getRiskLevel s) = ''Medium Risk'') \<and>
   (\<not> js_ge s (Finite 80) \<and> \<not> (js_ge s (Finite 60) \<and> js_lt s (Finite 80))
      \<longrightarrow> level (getRiskLevel s) = ''High Risk'')"
  by (cases s) (auto simp: getRiskLevel_def)

theorem getRiskLevel_bands_witness:
  "js_ge (Finite 80) (Finite 80) \<and> level (getRiskLevel (Finite 80)) = ''Low Risk'' \<and>
   js_ge (Finite 79) (Finite 60) \<and> js_lt (Finite 79) (Finite 80) \<and>
   level (getRiskLevel (Finite 79)) = ''Medium Risk'' \<and>
   \<not> js_ge (Finite 59) (Finite 80) \<and> \<not> js_ge (Finite 59) (Finite 60) \<and>
   level (getRiskLevel (Finite 59)) = ''High Risk''"
  using getRiskLevel_bands [of "Finite 80"] getRiskLevel_bands [of "Finite 79"]
    getRiskLevel_bands [of "Finite 59"]
  by simp

text \<open>
  C10. The two classifications agree on every score: the risk is "Low Risk" exactly when
  the grade is "AAA" or "AA", "Medium Risk" exactly when it is "A" or "BBB", and
  "High Risk" exactly when it is "BB", "B" or "CCC".
\<close>

theorem grade_risk_consistent:
  "(level (getRiskLevel s) = ''Low Risk'') = (getScoreGrade s \<in> {''AAA'', ''AA''}) \<and>
   (level (getRiskLevel s) = ''Medium Risk'') = (getScoreGrade s \<in> {''A'', ''BBB''}) \<and>
   (level (getRiskLevel s) = ''High Risk'') = (getScoreGrade s \<in> {''BB'', ''B'', ''CCC''})"
  by (cases s) (auto simp: getRiskLevel_def getScoreGrade_def)

section \<open>The selection coordinator\<close>

lemma find_ticker_absent:
  "t \<notin> ticker ` set companies \<Longrightarrow> find (\<lambda>c. ticker c = t) companies = None"
  by (auto simp: find_None_iff)

lemma find_ticker_present:
  "t \<in> ticker ` set companies \<Longrightarrow>
     \<exists>R\<in>set companies. ticker R = t \<and> find (\<lambda>c. ticker c = t) companies = Some R"
  by (induction companies) auto

lemma handleCompanySelect_found:
  "find (\<lambda>c. ticker c = t) companies = Some R \<Longrightarrow>
     handleCompanySelect companies calc t st = \<lparr>selectedCompany = Some R, creditScore = Some (calc R)\<rparr>"
  by (simp add: handleCompanySelect_def)

lemma handleCompanySelect_shape:
  "handleCompanySelect companies calc t st = st \<or>
   (\<exists>R\<in>set companies.
      handleCompanySelect companies calc t st = \<lparr>selectedCompany = Some R, creditScore = Some (calc R)\<rparr>)"
proof (cases "t \<in> ticker ` set companies")
  case True
  from find_ticker_present [OF True] obtain R where
    "R \<in> set companies" "find (\<lambda>c. ticker c = t) companies = Some R"
    by blast
  then show ?thesis using handleCompanySelect_found [of t companies R calc st] by blast
next
  case False
  then show ?thesis by (simp add: handleCompanySelect_def find_ticker_absent)
qed

lemma run_shape:
  "run companies calc ts st = st \<or>
   (\<exists>R\<in>set companies.
      run companies calc ts st = \<lparr>selectedCompany = Some R, creditScore = Some (calc R)\<rparr>)"
proof (induction ts arbitrary: st)
  case Nil
  show ?case by simp
next
  case (Cons t ts)
  from Cons.IH [of "handleCompanySelect companies calc t st"]
    handleCompanySelect_shape [of companies calc t st]
  show ?case by auto
qed

lemma sample_tickers: "ticker ` set sample_companies = {''AAPL'', ''MSFT''}"
  by (auto simp: sample_companies_def sample_company_def)

text \<open>
  C2. Selecting a ticker that no record of the list carries returns the coordinator state
  as it was, whatever that state is: neither the selected company nor the score changes.
\<close>

theorem select_unknown_noop:
  "T \<notin> ticker ` set companies \<Longrightarrow> handleCompanySelect companies calc T st = st"
  by (simp add: handleCompanySelect_def find_ticker_absent)

theorem select_unknown_noop_witness:
  "''TSLA'' \<notin> ticker ` set sample_companies \<and>
   handleCompanySelect sample_companies roe ''TSLA''
     \<lparr>selectedCompany = Some (sample_company ''AAPL'' 1.5 0.3 0.25 0.12), creditScore = Some 0.25\<rparr>
   = \<lparr>selectedCompany = Some (sample_company ''AAPL'' 1.5 0.3 0.25 0.12), creditScore = Some 0.25\<rparr>"
proof -
  have h: "''TSLA'' \<notin> ticker ` set sample_companies"
    by (simp add: sample_tickers)
  show ?thesis using h select_unknown_noop [OF h] by simp
qed

text \<open>
  C6. Selecting a ticker that occurs in the list yields the state whose selected company
  is a record of the list with that ticker and whose score is the calculator's result on
  that record. The same record and score result from every prior state, so nothing of an
  earlier selection remains.
\<close>

theorem select_known:
  assumes "T \<in> ticker ` set companies"
  shows "\<exists>R\<in>set companies. ticker R = T \<and>
           (\<forall>st. handleCompanySelect companies calc T st =
                   \<lparr>selectedCompany = Some R, creditScore = Some (calc R)\<rparr>)"
proof -
  from find_ticker_present [OF assms] obtain R where
    R: "R \<in> set companies" "ticker R = T" "find (\<lambda>c. ticker c = T) companies = Some R"
    by blast
  have "handleCompanySelect companies calc T st =
          \<lparr>selectedCompany = Some R, creditScore = Some (calc R)\<rparr>" for st
    using R(3) by (rule handleCompanySelect_found)
  with R(1,2) show ?thesis by blast
qed

theorem select_known_witness:
  "''MSFT'' \<in> ticker ` set sample_companies \<and>
   (\<exists>R\<in>set sample_companies. ticker R = ''MSFT'' \<and>
      handleCompanySelect sample_companies roe ''MSFT''
        \<lparr>selectedCompany = Some (sample_company ''AAPL'' 1.5 0.3 0.25 0.12), creditScore = Some 0.25\<rparr>
      = \<lparr>selectedCompany = Some R, creditScore = Some (roe R)\<rparr>)"
proof -
  have h: "''MSFT'' \<in> ticker ` set sample_companies"
    by (simp add: sample_tickers)
  show ?thesis using h select_known [OF h, of roe] by blast
qed

text \<open>
  C7. From the initial state, every sequence of selection events ends in one of two
  shapes: nothing selected and no score, or a record of the list selected together with
  the calculator's result on that record.
\<close>

theorem reachable_states:
  "run companies calc ts initial_state = \<lparr>selectedCompany = None, creditScore = None\<rparr> \<or>
   (\<exists>R\<in>set companies.
      run companies calc ts initial_state = \<lparr>selectedCompany = Some R, creditScore = Some (calc R)\<rparr>)"
  using run_shape [of companies calc ts initial_state] by (simp add: initial_state_def)

theorem reachable_states_witness:
  "run sample_companies roe [''TSLA''] initial_state = \<lparr>selectedCompany = None, creditScore = None\<rparr> \<and>
   (\<exists>R\<in>set sample_companies.
      run sample_companies roe [''AAPL'', ''TSLA'', ''MSFT''] initial_state =
        \<lparr>selectedCompany = Some R, creditScore = Some (roe R)\<rparr>)"
proof -
  have a: "run sample_companies roe [''TSLA''] initial_state = initial_state"
    by (simp add: handleCompanySelect_def sample_companies_def sample_company_def)
  have b: "run sample_companies roe [''AAPL'', ''TSLA'', ''MSFT''] initial_state \<noteq>
             \<lparr>selectedCompany = None, creditScore = None\<rparr>"
    by (simp add: handleCompanySelect_def sample_companies_def sample_company_def
        initial_state_def)
  from a b reachable_states [of sample_companies roe "[''AAPL'', ''TSLA'', ''MSFT'']"]
  show ?thesis by (simp add: initial_state_def)
qed

text \<open>
  C9. Selecting the same ticker twice in a row gives the state that selecting it once
  gives, from every state and for every ticker, in the list or not.
\<close>

theorem select_idempotent:
  "handleCompanySelect companies calc T (handleCompanySelect companies calc T st) =
   handleCompanySelect companies calc T st"
  by (simp add: handleCompanySelect_def split: option.splits)

end
